theory Spec2Isabelle
  imports Complex_Main
begin

section \<open>Python values and library functions the code relies on\<close>

text \<open>
  Rates are Python floats in the source. They are modelled as real numbers: sums, means,
  comparisons and the constants \<open>0.05\<close>, \<open>0.1\<close>, \<open>2.0\<close>, \<open>15.0\<close> are exact.
  Exceptions are values: a function that can raise returns \<open>py_error + 'a\<close>, with
  \<open>Inl\<close> for the exception.
\<close>

datatype py_error = ValueError | KeyError | TypeError | OSError | StatisticsError | ZeroDivisionError

text \<open>
  Python's \<open>round(x)\<close> rounds to the nearest integer and a tie to the even neighbour;
  \<open>round(x, 3)\<close> does the same at the third decimal place.
\<close>

definition py_round :: "real \<Rightarrow> int" where
  "py_round x =
     (let f = \<lfloor>x\<rfloor>; d = x - of_int f
      in if d < 1 / 2 then f else if 1 / 2 < d then f + 1 else if even f then f else f + 1)"

definition round3 :: "real \<Rightarrow> real" where
  "round3 x = of_int (py_round (x * 1000)) / 1000"

text \<open>\<open>a / b\<close> on numbers raises ZeroDivisionError when \<open>b\<close> is zero.\<close>

definition py_truediv :: "real \<Rightarrow> real \<Rightarrow> py_error + real" where
  "py_truediv a b = (if b = 0 then Inl ZeroDivisionError else Inr (a / b))"

text \<open>\<open>min(xs)\<close> and \<open>max(xs)\<close> raise ValueError on an empty sequence.\<close>

definition py_min :: "real list \<Rightarrow> py_error + real" where
  "py_min xs = (case xs of [] \<Rightarrow> Inl ValueError | x # rest \<Rightarrow> Inr (fold min rest x))"

definition py_max :: "real list \<Rightarrow> py_error + real" where
  "py_max xs = (case xs of [] \<Rightarrow> Inl ValueError | x # rest \<Rightarrow> Inr (fold max rest x))"

text \<open>
  \<open>sorted(xs, reverse=True)\<close> is a stable descending sort. On a list of numbers equal keys
  are equal values, so it is the ascending sort reversed.
\<close>

definition sorted_reverse :: "real list \<Rightarrow> real list" where
  "sorted_reverse xs = rev (sort xs)"

subsection \<open>The \<open>statistics\<close> module\<close>

definition mean :: "real list \<Rightarrow> py_error + real" where
  "mean data =
     (if length data < 1 then Inl StatisticsError
      else Inr (sum_list data / real (length data)))"

definition median :: "real list \<Rightarrow> py_error + real" where
  "median data =
     (let d = sort data; n = length d
      in if n = 0 then Inl StatisticsError
         else if n mod 2 = 1 then Inr (d ! (n div 2))
         else let i = n div 2 in Inr ((d ! (i - 1) + d ! i) / 2))"

definition stdev :: "real list \<Rightarrow> py_error + real" where
  "stdev data =
     (let n = length data
      in if n < 2 then Inl StatisticsError
         else let xbar = sum_list data / real n;
                  ss = (\<Sum>x\<leftarrow>data. (x - xbar)\<^sup>2)
              in Inr (sqrt (ss / real (n - 1))))"

section \<open>The aggregator: \<open>EnhancedRateScraper\<close>\<close>

text \<open>The keys of \<open>self.rate_sources\<close>.\<close>

definition rate_sources :: "string list" where
  "rate_sources =
     [''fred'', ''bankrate'', ''mortgage_news_daily'', ''freddiemac'', ''zillow'', ''nerdwallet'']"

text \<open>
  What one call \<open>self.rate_sources[source]()\<close> does: it raises, or it returns an
  \<open>Optional[float]\<close>. The input of the aggregation is the list \<open>preferred_sources\<close>, each
  name paired with the outcome of its fetch.
\<close>

datatype fetch_outcome = Raises | Returns "real option"

text \<open>
  A Python \<open>dict\<close> keeps insertion order; assigning to a key that is present keeps the
  key's position.
\<close>

fun dict_set :: "('k \<times> 'v) list \<Rightarrow> 'k \<Rightarrow> 'v \<Rightarrow> ('k \<times> 'v) list" where
  "dict_set [] k v = [(k, v)]"
| "dict_set ((k', v') # d) k v =
     (if k' = k then (k', v) # d else (k', v') # dict_set d k v)"

text \<open>\<open>_validate_rate\<close>; the \<open>isinstance\<close> test holds of every float.\<close>

definition validate_rate :: "real \<Rightarrow> bool" where
  "validate_rate rate =
     (if \<not> (2 \<le> rate \<and> rate \<le> 15) then False
      else if rate = 0 \<or> rate > 20 then False
      else True)"

datatype confidence = Low | Medium | High

text \<open>
  \<open>_calculate_confidence\<close>, its arithmetic read exactly; the section on floating point
  gives it with the rounding of each operation.
\<close>

definition calculate_confidence :: "real list \<Rightarrow> string list \<Rightarrow> py_error + confidence" where
  "calculate_confidence rates sources =
     (if length rates < 2 then Inr Low
      else case mean rates of Inl e \<Rightarrow> Inl e | Inr mean_rate \<Rightarrow>
           (case stdev rates of Inl e \<Rightarrow> Inl e | Inr std_dev \<Rightarrow>
              (let cv = (if mean_rate > 0 then std_dev / mean_rate else 1)
               in if length sources \<ge> 3 \<and> cv < 5 / 100 then Inr High
                  else if length sources \<ge> 2 \<and> cv < 1 / 10 then Inr Medium
                  else Inr Low)))"

text \<open>
  The loop of \<open>get_aggregated_rate\<close> over \<open>preferred_sources\<close>. The test
  \<open>rate and self._validate_rate(rate)\<close> is false for \<open>None\<close> and for \<open>0\<close>.
\<close>

fun fetch_loop ::
  "(string \<times> fetch_outcome) list \<Rightarrow> (string \<times> real option) list \<Rightarrow> string list
   \<Rightarrow> (string \<times> real option) list \<times> string list" where
  "fetch_loop [] source_rates successful_sources = (source_rates, successful_sources)"
| "fetch_loop ((source, outcome) # rest) source_rates successful_sources =
     (if source \<in> set rate_sources then
        (case outcome of
           Returns None \<Rightarrow> fetch_loop rest source_rates successful_sources
         | Returns (Some rate) \<Rightarrow>
             (if rate \<noteq> 0 \<and> validate_rate rate
              then fetch_loop rest (dict_set source_rates source (Some rate))
                     (successful_sources @ [source])
              else fetch_loop rest source_rates successful_sources)
         | Raises \<Rightarrow> fetch_loop rest (dict_set source_rates source None) successful_sources)
      else fetch_loop rest source_rates successful_sources)"

text \<open>\<open>[rate for rate in source_rates.values() if rate is not None]\<close>\<close>

definition valid_rates_of :: "(string \<times> real option) list \<Rightarrow> real list" where
  "valid_rates_of source_rates = List.map_filter snd source_rates"

record source_data =
  aggregated_rate :: real
  source_rates :: "(string \<times> real option) list"
  successful_sources :: "string list"
  rate_count :: nat
  min_rate :: real
  max_rate :: real
  average_rate :: real
  rate_spread :: real
  confidence :: confidence

text \<open>
  The local variables \<open>source_rates\<close> and \<open>successful_sources\<close> are primed below,
  the plain names being the fields of the result.
  The result of \<open>get_aggregated_rate\<close>: an exception that leaves the function, the pair
  \<open>(None, {'error': ..., 'sources': source_rates})\<close>, or the pair
  \<open>(aggregated_rate, source_data)\<close>, whose first component is the field
  \<open>aggregated_rate\<close> of the second.
\<close>

datatype aggregation =
  Raised py_error
| No_valid_rates "(string \<times> real option) list"
| Aggregated source_data

definition get_aggregated_rate :: "(string \<times> fetch_outcome) list \<Rightarrow> aggregation" where
  "get_aggregated_rate readings =
     (case fetch_loop readings [] [] of (source_rates', successful_sources') \<Rightarrow>
        (let valid_rates = valid_rates_of source_rates'
         in if valid_rates = [] then No_valid_rates source_rates'
            else case median valid_rates of Inl e \<Rightarrow> Raised e | Inr med \<Rightarrow>
              (case py_min valid_rates of Inl e \<Rightarrow> Raised e | Inr lo \<Rightarrow>
              (case py_max valid_rates of Inl e \<Rightarrow> Raised e | Inr hi \<Rightarrow>
              (case mean valid_rates of Inl e \<Rightarrow> Raised e | Inr avg \<Rightarrow>
              (case calculate_confidence valid_rates successful_sources' of
                 Inl e \<Rightarrow> Raised e
               | Inr conf \<Rightarrow>
                   Aggregated
                     \<lparr>aggregated_rate = round3 med,
                      source_rates = source_rates',
                      successful_sources = successful_sources',
                      rate_count = length valid_rates,
                      min_rate = lo,
                      max_rate = hi,
                      average_rate = round3 avg,
                      rate_spread = round3 (hi - lo),
                      confidence = conf\<rparr>))))))"

section \<open>The observation store: \<open>RateDataManager\<close>\<close>

subsection \<open>Calendar dates\<close>

text \<open>
  A \<open>datetime.date\<close>. \<open>today\<close>, the value of \<open>datetime.now().date()\<close>, is a parameter of
  every function that reads the clock.
\<close>

record date =
  year :: nat
  month :: nat
  day :: nat

definition is_leap :: "nat \<Rightarrow> bool" where
  "is_leap y = (if y mod 4 = 0 then (if y mod 100 = 0 then y mod 400 = 0 else True) else False)"

definition days_in_month :: "nat \<Rightarrow> nat \<Rightarrow> nat" where
  "days_in_month y m =
     (if m = 2 then (if is_leap y then 29 else 28)
      else if m = 4 \<or> m = 6 \<or> m = 9 \<or> m = 11 then 30
      else 31)"

text \<open>\<open>a >= b\<close> on dates compares year, then month, then day.\<close>

definition date_ge :: "date \<Rightarrow> date \<Rightarrow> bool" where
  "date_ge a b =
     (if year a = year b
      then (if month a = month b then day b \<le> day a else month b < month a)
      else year b < year a)"

text \<open>The constructor \<open>date(year, month, day)\<close>, on a date that exists.\<close>

definition mk_date :: "nat \<Rightarrow> nat \<Rightarrow> nat \<Rightarrow> date" where
  "mk_date y m d = \<lparr>year = y, month = m, day = d\<rparr>"

text \<open>\<open>d.replace(day=n)\<close> raises ValueError when the month of \<open>d\<close> has no day \<open>n\<close>.\<close>

definition replace_day :: "date \<Rightarrow> int \<Rightarrow> py_error + date" where
  "replace_day d new_day =
     (if 1 \<le> new_day \<and> new_day \<le> int (days_in_month (year d) (month d))
      then Inr (d\<lparr>day := nat new_day\<rparr>)
      else Inl ValueError)"

subsection \<open>The two files\<close>

text \<open>
  A row of \<open>rates.csv\<close> as \<open>csv.DictReader\<close> hands it to the code, reduced to the columns
  that are read back. A column of a row is \<open>Absent\<close> when the row is too short to have it
  (\<open>DictReader\<close> then gives \<open>None\<close>, and \<open>fromisoformat\<close> and \<open>float\<close> raise TypeError on
  it), \<open>Malformed\<close> when its text does not parse (ValueError), and \<open>Parsed\<close> with the
  parsed value otherwise. The columns \<open>timestamp\<close>, \<open>target_rate\<close>, \<open>state\<close>,
  \<open>alert_sent\<close>, \<open>daily_report_sent\<close> and \<open>notes\<close> are written and never read.
\<close>

datatype 'a cell = Absent | Malformed | Parsed 'a

record log_row =
  row_date :: "date cell"
  row_rate :: "real cell"
  row_source :: string

datatype trend = Rising | Falling | Stable | Insufficient_data | Unknown

text \<open>
  The dictionary in \<open>metadata.json\<close>, without the timestamps \<open>created\<close> and
  \<open>last_updated\<close> and without \<open>data_size_kb\<close>; none of the three can make an update fail.
\<close>

record metadata =
  total_records :: int
  sources_used :: "string list"
  latest_rate :: "real option"
  rate_trend :: trend

text \<open>
  The state of the data directory after the constructor has run: \<open>rates.csv\<close> exists and
  starts with its header, and \<open>rates_file\<close> lists the rows after the header.
  \<open>metadata_file\<close> is \<open>None\<close> when \<open>metadata.json\<close> cannot be loaded (unreadable, empty, or
  not the JSON of a metadata dictionary). \<open>rates_writable\<close> says whether appending a row
  to \<open>rates.csv\<close> succeeds, \<open>metadata_writable\<close> whether writing \<open>metadata.json\<close> (the
  \<open>open\<close> in mode \<open>'w'\<close> and the \<open>json.dump\<close>) succeeds. When that write fails,
  \<open>metadata_truncated\<close> says where: after the \<open>open\<close>, which has emptied the file by then
  (\<open>json.dump\<close> fails), or at the \<open>open\<close> itself, which leaves the file as it was.
\<close>

record store =
  rates_file :: "log_row list"
  metadata_file :: "metadata option"
  rates_writable :: bool
  metadata_writable :: bool
  metadata_truncated :: bool

text \<open>What \<open>_initialize_files\<close> creates in an empty directory.\<close>

definition fresh_store :: store where
  "fresh_store =
     \<lparr>rates_file = [],
      metadata_file =
        Some \<lparr>total_records = 0, sources_used = [], latest_rate = None, rate_trend = Unknown\<rparr>,
      rates_writable = True,
      metadata_writable = True,
      metadata_truncated = False\<rparr>"

subsection \<open>Reading the log\<close>

text \<open>\<open>_count_records\<close>: the rows the reader yields, header included, minus one.\<close>

definition count_records :: "store \<Rightarrow> int" where
  "count_records s = int (length (rates_file s) + 1) - 1"

text \<open>
  The \<open>for row in reader\<close> loop of \<open>get_recent_rates\<close>. The inner handler catches
  ValueError and KeyError and goes on to the next row; a TypeError leaves the loop.
\<close>

fun scan_rows :: "date \<Rightarrow> log_row list \<Rightarrow> real list \<Rightarrow> py_error + real list" where
  "scan_rows cutoff_date [] rates = Inr rates"
| "scan_rows cutoff_date (row # rest) rates =
     (case row_date row of
        Absent \<Rightarrow> Inl TypeError
      | Malformed \<Rightarrow> scan_rows cutoff_date rest rates
      | Parsed record_date \<Rightarrow>
          (if date_ge record_date cutoff_date then
             (case row_rate row of
                Absent \<Rightarrow> Inl TypeError
              | Malformed \<Rightarrow> scan_rows cutoff_date rest rates
              | Parsed r \<Rightarrow> scan_rows cutoff_date rest (rates @ [r]))
           else scan_rows cutoff_date rest rates))"

text \<open>The body of the outer \<open>try\<close> of \<open>get_recent_rates\<close>.\<close>

definition get_recent_rates_try :: "date \<Rightarrow> int \<Rightarrow> store \<Rightarrow> py_error + real list" where
  "get_recent_rates_try today days s =
     (case replace_day today (max 1 (int (day today) - days)) of
        Inl e \<Rightarrow> Inl e
      | Inr cutoff_date \<Rightarrow>
          (case scan_rows cutoff_date (rates_file s) [] of
             Inl e \<Rightarrow> Inl e
           | Inr rates \<Rightarrow> Inr (sorted_reverse rates)))"

definition get_recent_rates :: "date \<Rightarrow> int \<Rightarrow> store \<Rightarrow> real list" where
  "get_recent_rates today days s =
     (case get_recent_rates_try today days s of Inl e \<Rightarrow> [] | Inr rates \<Rightarrow> rates)"

text \<open>
  \<open>_calculate_trend\<close>: the body of its \<open>try\<close>, then the handler that returns \<open>'unknown'\<close>.
  The arithmetic is read exactly here; the section on floating point gives the function
  with the rounding of each operation.
\<close>

definition calculate_trend_try :: "date \<Rightarrow> store \<Rightarrow> py_error + trend" where
  "calculate_trend_try today s =
     (let recent_rates = get_recent_rates today 7 s
      in if length recent_rates < 2 then Inr Insufficient_data
         else let first_half = take (length recent_rates div 2) recent_rates;
                  second_half = drop (length recent_rates div 2) recent_rates
              in if first_half = [] \<or> second_half = [] then Inr Insufficient_data
                 else case py_truediv (sum_list first_half) (real (length first_half)) of
                        Inl e \<Rightarrow> Inl e
                      | Inr avg_first \<Rightarrow>
                          (case py_truediv (sum_list second_half) (real (length second_half)) of
                             Inl e \<Rightarrow> Inl e
                           | Inr avg_second \<Rightarrow>
                               (if avg_second > avg_first + 1 / 10 then Inr Rising
                                else if avg_second < avg_first - 1 / 10 then Inr Falling
                                else Inr Stable)))"

definition calculate_trend :: "date \<Rightarrow> store \<Rightarrow> trend" where
  "calculate_trend today s =
     (case calculate_trend_try today s of Inl e \<Rightarrow> Unknown | Inr t \<Rightarrow> t)"

text \<open>\<open>_calculate_volatility\<close>; \<open>variance ** 0.5\<close> is the square root.\<close>

definition calculate_volatility :: "real list \<Rightarrow> real" where
  "calculate_volatility rates =
     (if length rates < 2 then 0
      else let mean_rate = sum_list rates / real (length rates);
               variance = (\<Sum>rate\<leftarrow>rates. (rate - mean_rate)\<^sup>2) / real (length rates)
           in sqrt variance)"

text \<open>
  The dictionary \<open>get_rate_statistics\<close> returns, without \<open>data_size_kb\<close>. The fields that
  share a key with the aggregation result or the metadata carry the prefix \<open>stat_\<close>.
\<close>

record rate_statistics =
  period_days :: int
  record_count :: nat
  stat_latest_rate :: "real option"
  stat_average_rate :: real
  stat_min_rate :: real
  stat_max_rate :: real
  stat_trend :: trend
  volatility :: real

text \<open>The two dictionaries with the key \<open>'error'\<close>.\<close>

datatype statistics_error = No_data_available | Exception_text py_error

definition get_rate_statistics :: "date \<Rightarrow> int \<Rightarrow> store \<Rightarrow> statistics_error + rate_statistics" where
  "get_rate_statistics today days s =
     (let rates = get_recent_rates today days s
      in if rates = [] then Inl No_data_available
         else case py_truediv (sum_list rates) (real (length rates)) of
                Inl e \<Rightarrow> Inl (Exception_text e)
              | Inr avg \<Rightarrow>
                  (case py_min rates of
                     Inl e \<Rightarrow> Inl (Exception_text e)
                   | Inr lo \<Rightarrow>
                       (case py_max rates of
                          Inl e \<Rightarrow> Inl (Exception_text e)
                        | Inr hi \<Rightarrow>
                            Inr \<lparr>period_days = days,
                                 record_count = length rates,
                                 stat_latest_rate = (case rates of [] \<Rightarrow> None | r # _ \<Rightarrow> Some r),
                                 stat_average_rate = round3 avg,
                                 stat_min_rate = lo,
                                 stat_max_rate = hi,
                                 stat_trend = calculate_trend today s,
                                 volatility = round3 (calculate_volatility rates)\<rparr>)))"

subsection \<open>Writing\<close>

text \<open>
  The body of the \<open>try\<close> of \<open>_update_metadata\<close>: load the dictionary, update it, write it
  back. The result is the exception raised, if any (OSError stands for every exception of
  a load or a write), and the directory as the body leaves it: unchanged when the load or
  the \<open>open\<close> for writing fails, with an emptied \<open>metadata.json\<close>, which no longer loads,
  when \<open>json.dump\<close> fails after the \<open>open\<close>.
\<close>

definition update_metadata_try ::
  "date \<Rightarrow> real \<Rightarrow> string \<Rightarrow> store \<Rightarrow> py_error option \<times> store" where
  "update_metadata_try today rate source s =
     (case metadata_file s of
        None \<Rightarrow> (Some OSError, s)
      | Some loaded \<Rightarrow>
          (let m1 = loaded\<lparr>latest_rate := Some rate, total_records := count_records s\<rparr>;
               m2 = (if source \<in> set (sources_used m1) then m1
                     else m1\<lparr>sources_used := sources_used m1 @ [source]\<rparr>);
               m3 = m2\<lparr>rate_trend := calculate_trend today s\<rparr>
           in if metadata_writable s then (None, s\<lparr>metadata_file := Some m3\<rparr>)
              else if metadata_truncated s then (Some OSError, s\<lparr>metadata_file := None\<rparr>)
              else (Some OSError, s)))"

text \<open>
  \<open>_update_metadata\<close>: its handler logs the exception and returns normally, whatever the
  body has done to the file.
\<close>

definition update_metadata :: "date \<Rightarrow> real \<Rightarrow> string \<Rightarrow> store \<Rightarrow> store" where
  "update_metadata today rate source s = snd (update_metadata_try today rate source s)"

text \<open>Opening \<open>rates.csv\<close> in mode \<open>'a'\<close> and writing one row.\<close>

definition append_row :: "store \<Rightarrow> log_row \<Rightarrow> py_error + store" where
  "append_row s row =
     (if rates_writable s then Inr (s\<lparr>rates_file := rates_file s @ [row]\<rparr>)
      else Inl OSError)"

text \<open>
  \<open>save_rate\<close> returns its boolean and leaves the directory in a new state. The row it
  writes reads back as the date and the rate it was given.
\<close>

definition new_row :: "date \<Rightarrow> real \<Rightarrow> string \<Rightarrow> log_row" where
  "new_row today rate source =
     \<lparr>row_date = Parsed today, row_rate = Parsed rate, row_source = source\<rparr>"

definition save_rate :: "date \<Rightarrow> real \<Rightarrow> string \<Rightarrow> store \<Rightarrow> bool \<times> store" where
  "save_rate today rate source s =
     (case append_row s (new_row today rate source) of
        Inl e \<Rightarrow> (False, s)
      | Inr s1 \<Rightarrow> (True, update_metadata today rate source s1))"

text \<open>Successive calls of \<open>save_rate\<close>, one per poll cycle, whatever each returns.\<close>

fun save_rates :: "(date \<times> real \<times> string) list \<Rightarrow> store \<Rightarrow> store" where
  "save_rates [] s = s"
| "save_rates ((today, rate, source) # rest) s =
     save_rates rest (snd (save_rate today rate source s))"

section \<open>Notions of the specification\<close>

text \<open>
  The definitions of this section follow the words of the specification, not the code;
  the theorems compare the code with them.
\<close>

subsection \<open>The window \<open>[today - windowDays, today]\<close>\<close>

text \<open>The number of a day in the proleptic Gregorian calendar, as \<open>date.toordinal\<close> counts.\<close>

definition days_before_year :: "nat \<Rightarrow> int" where
  "days_before_year y =
     (let p = int y - 1 in p * 365 + p div 4 - p div 100 + p div 400)"

definition days_before_month :: "nat \<Rightarrow> nat \<Rightarrow> int" where
  "days_before_month y m =
     (\<Sum>k\<leftarrow>take (m - 1) [1, 2, 3, 4, 5, 6, 7, 8, 9, 10, 11, 12]. int (days_in_month y k))"

definition to_ordinal :: "date \<Rightarrow> int" where
  "to_ordinal d = days_before_year (year d) + days_before_month (year d) (month d) + int (day d)"

definition in_window :: "date \<Rightarrow> int \<Rightarrow> date \<Rightarrow> bool" where
  "in_window today window_days d =
     (to_ordinal today - window_days \<le> to_ordinal d \<and> to_ordinal d \<le> to_ordinal today)"

text \<open>
  \<open>recentRates\<close> as the specification words it: the rate of every observation whose date
  lies in the window, most recent first. The log is append-only, so the most recent
  observation is its last row.
\<close>

definition rate_in_window :: "date \<Rightarrow> int \<Rightarrow> log_row \<Rightarrow> real option" where
  "rate_in_window today window_days row =
     (case row_date row of
        Parsed d \<Rightarrow>
          (if in_window today window_days d
           then (case row_rate row of Parsed r \<Rightarrow> Some r | Malformed \<Rightarrow> None | Absent \<Rightarrow> None)
           else None)
      | Malformed \<Rightarrow> None
      | Absent \<Rightarrow> None)"

definition recent_rates_spec :: "date \<Rightarrow> int \<Rightarrow> store \<Rightarrow> real list" where
  "recent_rates_spec today window_days s =
     rev (List.map_filter (rate_in_window today window_days) (rates_file s))"

subsection \<open>Confidence\<close>

text \<open>The sample standard deviation, the coefficient of variation and the ladder of tiers.\<close>

definition sample_stdev :: "real list \<Rightarrow> real" where
  "sample_stdev xs =
     sqrt ((\<Sum>x\<leftarrow>xs. (x - sum_list xs / real (length xs))\<^sup>2) / (real (length xs) - 1))"

definition coefficient_of_variation :: "real list \<Rightarrow> real" where
  "coefficient_of_variation xs =
     (if sum_list xs / real (length xs) > 0
      then sample_stdev xs / (sum_list xs / real (length xs))
      else 1)"

definition confidence_ladder :: "nat \<Rightarrow> real \<Rightarrow> confidence" where
  "confidence_ladder n cv =
     (if n < 2 then Low
      else if n \<ge> 3 \<and> cv < 5 / 100 then High
      else if n \<ge> 2 \<and> cv < 1 / 10 then Medium
      else Low)"

subsection \<open>Trend\<close>

definition mean_of :: "real list \<Rightarrow> real" where
  "mean_of xs = sum_list xs / real (length xs)"

definition trend_of_halves :: "real list \<Rightarrow> trend" where
  "trend_of_halves rs =
     (let first_half = take (length rs div 2) rs; second_half = drop (length rs div 2) rs
      in if mean_of second_half > mean_of first_half + 1 / 10 then Rising
         else if mean_of second_half < mean_of first_half - 1 / 10 then Falling
         else Stable)"

subsection \<open>Sources in order of first appearance\<close>


section \<open>Floating point\<close>

text \<open>
  A Python float is a binary64 number, and every such number is a real number. An
  operation on floats returns the exact result rounded to a float, so that \<open>6.2 - 0.1\<close> is
  \<open>6.1000000000000005\<close> and not \<open>6.1\<close>, and a literal such as \<open>0.1\<close> denotes the float
  nearest to it. Reading a rate from the log, comparing two floats and sorting a list of
  floats involve no rounding. \<open>_calculate_trend\<close> and \<open>_calculate_confidence\<close> compare
  rounded values with rounded thresholds; they are given here with the arithmetic as a
  parameter: the rounding \<open>rnd\<close> of an exact result, and the values of the library functions
  \<open>sum\<close>, \<open>statistics.mean\<close> and \<open>statistics.stdev\<close>, whose internal roundings differ from
  one version of Python to the next.
\<close>

record float_arith =
  rnd :: "real \<Rightarrow> real"
  float_sum :: "real list \<Rightarrow> real"
  float_mean :: "real list \<Rightarrow> real"
  float_stdev :: "real list \<Rightarrow> real"

text \<open>\<open>a / b\<close> on floats.\<close>

definition float_truediv :: "float_arith \<Rightarrow> real \<Rightarrow> real \<Rightarrow> py_error + real" where
  "float_truediv fa a b = (if b = 0 then Inl ZeroDivisionError else Inr (rnd fa (a / b)))"

text \<open>\<open>statistics.mean\<close> and \<open>statistics.stdev\<close>, with the errors they raise.\<close>

definition mean_float :: "float_arith \<Rightarrow> real list \<Rightarrow> py_error + real" where
  "mean_float fa data =
     (if length data < 1 then Inl StatisticsError else Inr (float_mean fa data))"

definition stdev_float :: "float_arith \<Rightarrow> real list \<Rightarrow> py_error + real" where
  "stdev_float fa data =
     (if length data < 2 then Inl StatisticsError else Inr (float_stdev fa data))"

text \<open>\<open>_calculate_trend\<close> on floats.\<close>

definition calculate_trend_float_try :: "float_arith \<Rightarrow> date \<Rightarrow> store \<Rightarrow> py_error + trend" where
  "calculate_trend_float_try fa today s =
     (let recent_rates = get_recent_rates today 7 s
      in if length recent_rates < 2 then Inr Insufficient_data
         else let first_half = take (length recent_rates div 2) recent_rates;
                  second_half = drop (length recent_rates div 2) recent_rates
              in if first_half = [] \<or> second_half = [] then Inr Insufficient_data
                 else case float_truediv fa (float_sum fa first_half)
                             (real (length first_half)) of
                        Inl e \<Rightarrow> Inl e
                      | Inr avg_first \<Rightarrow>
                          (case float_truediv fa (float_sum fa second_half)
                                  (real (length second_half)) of
                             Inl e \<Rightarrow> Inl e
                           | Inr avg_second \<Rightarrow>
                               (if avg_second > rnd fa (avg_first + rnd fa (1 / 10))
                                then Inr Rising
                                else if avg_second < rnd fa (avg_first - rnd fa (1 / 10))
                                then Inr Falling
                                else Inr Stable)))"

definition calculate_trend_float :: "float_arith \<Rightarrow> date \<Rightarrow> store \<Rightarrow> trend" where
  "calculate_trend_float fa today s =
     (case calculate_trend_float_try fa today s of Inl e \<Rightarrow> Unknown | Inr t \<Rightarrow> t)"

text \<open>\<open>_calculate_confidence\<close> on floats.\<close>

definition calculate_confidence_float ::
  "float_arith \<Rightarrow> real list \<Rightarrow> string list \<Rightarrow> py_error + confidence" where
  "calculate_confidence_float fa rates sources =
     (if length rates < 2 then Inr Low
      else case mean_float fa rates of Inl e \<Rightarrow> Inl e | Inr mean_rate \<Rightarrow>
           (case stdev_float fa rates of Inl e \<Rightarrow> Inl e | Inr std_dev \<Rightarrow>
              (let cv = (if mean_rate > 0 then rnd fa (std_dev / mean_rate) else 1)
               in if length sources \<ge> 3 \<and> cv < rnd fa (5 / 100) then Inr High
                  else if length sources \<ge> 2 \<and> cv < rnd fa (1 / 10) then Inr Medium
                  else Inr Low)))"

subsection \<open>Two arithmetics\<close>

text \<open>
  Exact arithmetic: nothing is rounded. With it the two functions are those of the
  sections above.
\<close>

definition exact_arith :: float_arith where
  "exact_arith =
     \<lparr>rnd = (\<lambda>x. x),
      float_sum = sum_list,
      float_mean = (\<lambda>data. sum_list data / real (length data)),
      float_stdev = sample_stdev\<rparr>"

text \<open>
  Rounding to the nearest binary64 number, a tie to the one with an even significand: a
  number between \<open>2 ^ k\<close> and \<open>2 ^ (k + 1)\<close> is rounded to a multiple of \<open>2 ^ (k - 52)\<close>, and
  below \<open>2 ^ - 1022\<close> to a multiple of \<open>2 ^ - 1074\<close>. Overflow to infinity, beyond
  \<open>1.8e308\<close>, is left out.
\<close>

definition round_binary64 :: "real \<Rightarrow> real" where
  "round_binary64 x =
     (if x = 0 then 0
      else let e = max \<lfloor>log 2 \<bar>x\<bar>\<rfloor> (- 1022) - 52
           in of_int (py_round (x / 2 powr of_int e)) * 2 powr of_int e)"

text \<open>
  The arithmetic of CPython 3.11: \<open>sum\<close> adds from the left, starting from \<open>0\<close>, and
  \<open>statistics.mean\<close> and \<open>statistics.stdev\<close> round the exact mean and the exact sample
  standard deviation of their data once.
\<close>

definition binary64 :: float_arith where
  "binary64 =
     \<lparr>rnd = round_binary64,
      float_sum = foldl (\<lambda>acc x. round_binary64 (acc + x)) 0,
      float_mean = (\<lambda>data. round_binary64 (sum_list data / real (length data))),
      float_stdev = (\<lambda>data. round_binary64 (sample_stdev data))\<rparr>"

subsection \<open>The specification's ladder and bisection, on floats\<close>

definition cv_float :: "float_arith \<Rightarrow> real list \<Rightarrow> real" where
  "cv_float fa rates =
     (if float_mean fa rates > 0 then rnd fa (float_stdev fa rates / float_mean fa rates)
      else 1)"

definition confidence_ladder_float :: "float_arith \<Rightarrow> nat \<Rightarrow> real \<Rightarrow> confidence" where
  "confidence_ladder_float fa n cv =
     (if n < 2 then Low
      else if n \<ge> 3 \<and> cv < rnd fa (5 / 100) then High
      else if n \<ge> 2 \<and> cv < rnd fa (1 / 10) then Medium
      else Low)"

section \<open>Facts about the Python library functions\<close>

subsection \<open>Rounding\<close>








subsection \<open>Sorting, minimum, maximum\<close>

lemma sort_nth_mem: "i < length xs \<Longrightarrow> sort xs ! i \<in> set xs"
  by (metis length_sort nth_mem set_sort)

lemma sort_not_Nil: "xs \<noteq> [] \<Longrightarrow> sort xs \<noteq> []"
  by (metis length_0_conv length_sort)

lemma py_min_eq: "xs \<noteq> [] \<Longrightarrow> py_min xs = Inr (Min (set xs))"
  using Min.set_eq_fold [where 'a = real] by (cases xs) (simp_all add: py_min_def del: set_simps)

lemma py_max_eq: "xs \<noteq> [] \<Longrightarrow> py_max xs = Inr (Max (set xs))"
  using Max.set_eq_fold [where 'a = real] by (cases xs) (simp_all add: py_max_def del: set_simps)

lemma sorted_le_last: "sorted ys \<Longrightarrow> x \<in> set ys \<Longrightarrow> x \<le> last (ys :: real list)"
  by (induction ys) auto

lemma hd_sorted_reverse:
  assumes ne: "xs \<noteq> []"
  shows "hd (sorted_reverse xs) = Max (set xs)"
proof -
  have sne: "sort xs \<noteq> []" using ne by (rule sort_not_Nil)
  have mem: "last (sort xs) \<in> set xs" using last_in_set [OF sne] by simp
  have ub: "x \<le> last (sort xs)" if "x \<in> set xs" for x
    using sorted_le_last [of "sort xs" x] that by simp
  have "Max (set xs) = last (sort xs)"
    using mem ub by (intro Max_eqI) auto
  then show ?thesis using sne by (simp add: sorted_reverse_def hd_rev)
qed

lemma sorted_reverse_props:
  "set (sorted_reverse xs) = set xs" "length (sorted_reverse xs) = length xs"
  "(sorted_reverse xs = []) = (xs = [])"
  by (simp_all add: sorted_reverse_def) (metis length_0_conv length_sort)

subsection \<open>The statistics functions return on the lists the code gives them\<close>

lemma median_in_range:
  assumes ne: "xs \<noteq> []"
  shows "\<exists>m. median xs = Inr m \<and> Min (set xs) \<le> m \<and> m \<le> Max (set xs)"
proof -
  let ?d = "sort xs" and ?n = "length xs"
  have pos: "0 < ?n" using ne by simp
  have sne: "sort xs \<noteq> []" using ne by (rule sort_not_Nil)
  have rng: "Min (set xs) \<le> ?d ! i \<and> ?d ! i \<le> Max (set xs)" if "i < ?n" for i
    using sort_nth_mem [OF that] by simp
  show ?thesis
  proof (cases "?n mod 2 = 1")
    case True
    have "?n div 2 < ?n" using pos by simp
    then show ?thesis using True pos sne rng by (simp add: median_def Let_def)
  next
    case False
    then have ev: "?n mod 2 = 0" by simp
    then have two: "2 \<le> ?n" using pos by presburger
    have i1: "?n div 2 - 1 < ?n" and i2: "?n div 2 < ?n" using two by simp_all
    have "median xs = Inr ((?d ! (?n div 2 - 1) + ?d ! (?n div 2)) / 2)"
      using ev pos sne by (simp add: median_def Let_def)
    moreover have "Min (set xs) \<le> (?d ! (?n div 2 - 1) + ?d ! (?n div 2)) / 2"
      using rng [OF i1] rng [OF i2] by simp
    moreover have "(?d ! (?n div 2 - 1) + ?d ! (?n div 2)) / 2 \<le> Max (set xs)"
      using rng [OF i1] rng [OF i2] by simp
    ultimately show ?thesis by blast
  qed
qed

lemma mean_eq: "xs \<noteq> [] \<Longrightarrow> mean xs = Inr (sum_list xs / real (length xs))"
  by (cases xs) (simp_all add: mean_def)

lemma stdev_eq:
  "2 \<le> length xs \<Longrightarrow>
   stdev xs =
     Inr (sqrt ((\<Sum>x\<leftarrow>xs. (x - sum_list xs / real (length xs))\<^sup>2) / real (length xs - 1)))"
  by (simp add: stdev_def Let_def)


lemma sqrt_1_4: "sqrt (1 / 4) = 1 / 2"
  by (rule real_sqrt_unique) (simp_all add: power2_eq_square)

section \<open>Facts about the aggregator\<close>

lemma calculate_confidence_eq:
  assumes "rates \<noteq> []" and "length sources = length rates"
  shows "calculate_confidence rates sources =
           Inr (confidence_ladder (length sources) (coefficient_of_variation rates))"
proof (cases "length rates < 2")
  case True
  then show ?thesis using assms by (simp add: calculate_confidence_def confidence_ladder_def)
next
  case False
  then have two: "2 \<le> length rates" by simp
  have eq: "real (length rates - 1) = real (length rates) - 1" using two by simp
  show ?thesis
    using False assms
    by (simp add: calculate_confidence_def mean_eq [OF assms(1)] stdev_eq [OF two] Let_def
        confidence_ladder_def coefficient_of_variation_def sample_stdev_def eq)
qed


lemma calculate_confidence_returns: "\<exists>c. calculate_confidence rates sources = Inr c"
proof (cases "length rates < 2")
  case True
  then show ?thesis by (simp add: calculate_confidence_def)
next
  case False
  then have two: "2 \<le> length rates" by simp
  then have ne: "rates \<noteq> []" by auto
  show ?thesis
    using False by (simp add: calculate_confidence_def mean_eq [OF ne] stdev_eq [OF two] Let_def)
qed

lemma get_aggregated_rate_cases:
  "get_aggregated_rate readings = No_valid_rates (fst (fetch_loop readings [] [])) \<and>
     valid_rates_of (fst (fetch_loop readings [] [])) = []
   \<or> (\<exists>d med conf. get_aggregated_rate readings = Aggregated d \<and>
        source_rates d = fst (fetch_loop readings [] []) \<and>
        successful_sources d = snd (fetch_loop readings [] []) \<and>
        valid_rates_of (source_rates d) \<noteq> [] \<and>
        median (valid_rates_of (source_rates d)) = Inr med \<and>
        aggregated_rate d = round3 med \<and>
        min_rate d = Min (set (valid_rates_of (source_rates d))) \<and>
        max_rate d = Max (set (valid_rates_of (source_rates d))) \<and>
        rate_count d = length (valid_rates_of (source_rates d)) \<and>
        calculate_confidence (valid_rates_of (source_rates d)) (successful_sources d) = Inr conf \<and>
        confidence d = conf)"
proof (cases "fetch_loop readings [] []")
  case (Pair sr ss)
  show ?thesis
  proof (cases "valid_rates_of sr = []")
    case True
    then show ?thesis using Pair by (simp add: get_aggregated_rate_def)
  next
    case False
    obtain med where med: "median (valid_rates_of sr) = Inr med"
      using median_in_range [OF False] by blast
    obtain conf where conf: "calculate_confidence (valid_rates_of sr) ss = Inr conf"
      using calculate_confidence_returns by blast
    show ?thesis
      using Pair False med conf
      by (simp add: get_aggregated_rate_def py_min_eq py_max_eq mean_eq Let_def)
  qed
qed

lemma get_aggregated_rate_never_raises: "get_aggregated_rate readings \<noteq> Raised e"
  using get_aggregated_rate_cases [of readings] by auto

subsection \<open>Sources and rates in step\<close>

lemma dict_set_new: "k \<notin> fst ` set d \<Longrightarrow> dict_set d k v = d @ [(k, v)]"
  by (induction d) auto

lemma valid_rates_of_append:
  "valid_rates_of (d @ [(k, v)]) =
     valid_rates_of d @ (case v of None \<Rightarrow> [] | Some r \<Rightarrow> [r])"
  by (induction d) (auto simp: valid_rates_of_def split: option.splits)

lemma fst_dict_set: "fst ` set (dict_set d k v) = insert k (fst ` set d)"
proof (induction d)
  case Nil
  then show ?case by simp
next
  case (Cons p d)
  obtain k' v' where p: "p = (k', v')" by (cases p)
  show ?case
  proof (cases "k' = k")
    case True
    then show ?thesis by (simp add: p)
  next
    case False
    then show ?thesis using Cons.IH by (simp add: p insert_commute)
  qed
qed

lemma fetch_loop_lengths:
  assumes "distinct (map fst readings)" and "fst ` set readings \<inter> fst ` set sr = {}"
  shows "length (valid_rates_of (fst (fetch_loop readings sr ss))) + length ss =
         length (snd (fetch_loop readings sr ss)) + length (valid_rates_of sr)"
  using assms
proof (induction readings sr ss rule: fetch_loop.induct)
  case (1 sr ss)
  then show ?case by simp
next
  case (2 source outcome rest sr ss)
  have new: "source \<notin> fst ` set sr" using "2.prems"(2) by auto
  have d: "distinct (map fst rest)" using "2.prems"(1) by simp
  have src: "source \<notin> fst ` set rest" using "2.prems"(1) by (auto simp: image_iff)
  have disj: "fst ` set rest \<inter> fst ` set sr = {}" using "2.prems"(2) by auto
  have disj': "fst ` set rest \<inter> fst ` set (dict_set sr source v) = {}" for v
    using disj src by (auto simp: fst_dict_set)
  show ?case
  proof (cases "source \<in> set rate_sources")
    case False
    then show ?thesis using "2.IH"(5) [OF False d disj] by simp
  next
    case True
    show ?thesis
    proof (cases outcome)
      case Raises
      then show ?thesis
        using "2.IH"(1) [OF True Raises d disj'] True
        by (simp add: dict_set_new [OF new] valid_rates_of_append)
    next
      case (Returns ro)
      show ?thesis
      proof (cases ro)
        case None
        then show ?thesis using "2.IH"(2) [OF True Returns None d disj] True Returns by simp
      next
        case (Some rate)
        show ?thesis
        proof (cases "rate \<noteq> 0 \<and> validate_rate rate")
          case ok: True
          then show ?thesis
            using "2.IH"(3) [OF True Returns Some ok d disj'] True Returns Some
            by (simp add: dict_set_new [OF new] valid_rates_of_append)
        next
          case bad: False
          then show ?thesis
            using "2.IH"(4) [OF True Returns Some bad d disj] True Returns Some by auto
        qed
      qed
    qed
  qed
qed

lemma successful_sources_count:
  assumes "distinct (map fst readings)" and "get_aggregated_rate readings = Aggregated d"
  shows "length (successful_sources d) = length (valid_rates_of (source_rates d))"
proof -
  from get_aggregated_rate_cases [of readings] assms(2)
  have sr: "source_rates d = fst (fetch_loop readings [] [])"
    and ss: "successful_sources d = snd (fetch_loop readings [] [])" by auto
  from fetch_loop_lengths [OF assms(1), of "[]" "[]"] show ?thesis
    by (simp add: sr ss valid_rates_of_def)
qed

text \<open>
  When no source is named twice in \<open>preferred_sources\<close>, the aggregation passes as many
  sources as rates to \<open>_calculate_confidence\<close>, and the confidence of the result is the
  tier of the ladder for the number of successful sources.
\<close>

lemma confidence_of_aggregation:
  assumes "distinct (map fst readings)" and "get_aggregated_rate readings = Aggregated d"
  shows "confidence d =
           confidence_ladder (length (successful_sources d))
             (coefficient_of_variation (valid_rates_of (source_rates d)))"
proof -
  from get_aggregated_rate_cases [of readings] assms(2)
  have ne: "valid_rates_of (source_rates d) \<noteq> []"
    and conf: "calculate_confidence (valid_rates_of (source_rates d)) (successful_sources d) =
                 Inr (confidence d)"
    by auto
  from calculate_confidence_eq [OF ne successful_sources_count [OF assms]] conf
  show ?thesis by simp
qed

section \<open>Facts about the store\<close>





lemma get_recent_rates_cases:
  "get_recent_rates today days s = [] \<or>
   (\<exists>rates. rates \<noteq> [] \<and> get_recent_rates today days s = sorted_reverse rates)"
  by (cases "get_recent_rates_try today days s")
     (auto simp: get_recent_rates_def get_recent_rates_try_def sorted_reverse_props
           split: sum.splits)

text \<open>
  With two rates or more neither half is empty and no division fails, so the handler of
  \<open>_calculate_trend\<close> is never entered.
\<close>

lemma calculate_trend_unfold:
  "calculate_trend today s =
     (if length (get_recent_rates today 7 s) < 2 then Insufficient_data
      else trend_of_halves (get_recent_rates today 7 s))"
proof (cases "length (get_recent_rates today 7 s) < 2")
  case True
  then show ?thesis by (simp add: calculate_trend_def calculate_trend_try_def)
next
  case False
  let ?rs = "get_recent_rates today 7 s"
  have two: "2 \<le> length ?rs" using False by simp
  then have h1: "take (length ?rs div 2) ?rs \<noteq> []" and h2: "drop (length ?rs div 2) ?rs \<noteq> []"
    by auto
  have l1: "real (length (take (length ?rs div 2) ?rs)) \<noteq> 0" using h1 by simp
  have l2: "real (length (drop (length ?rs div 2) ?rs)) \<noteq> 0" using h2 by simp
  show ?thesis
    using False h1 h2 l1 l2
    by (simp add: calculate_trend_def calculate_trend_try_def Let_def py_truediv_def
        trend_of_halves_def mean_of_def
        del: of_nat_eq_0_iff length_0_conv take_eq_Nil drop_eq_Nil)
qed

subsection \<open>Saving\<close>




lemma rates_file_update_metadata_try:
  "rates_file (snd (update_metadata_try today rate source s)) = rates_file s"
  by (simp add: update_metadata_try_def Let_def split: option.splits)






section \<open>Facts about floating point\<close>

subsection \<open>Evaluating the rounding\<close>

lemma floor_log2_eq:
  fixes x :: real and k :: int
  assumes "2 powr of_int k \<le> \<bar>x\<bar>" and "\<bar>x\<bar> < 2 powr of_int (k + 1)"
  shows "\<lfloor>log 2 \<bar>x\<bar>\<rfloor> = k"
proof -
  have pos: "0 < \<bar>x\<bar>" using assms(1) by (smt (verit) powr_gt_zero)
  have "of_int k \<le> log 2 \<bar>x\<bar>" using assms(1) pos by (simp add: le_log_iff)
  moreover have "log 2 \<bar>x\<bar> < of_int (k + 1)" using assms(2) pos by (simp add: log_less_iff)
  ultimately show ?thesis by linarith
qed

lemma round_binary64_above_one:
  fixes k :: nat
  assumes lo: "2 ^ k \<le> \<bar>x\<bar>" and hi: "\<bar>x\<bar> < 2 ^ Suc k" and k: "k \<le> 52"
  shows "round_binary64 x = of_int (py_round (x * 2 ^ (52 - k))) / 2 ^ (52 - k)"
proof -
  have "(0::real) < 2 ^ k" by simp
  with lo have "0 < \<bar>x\<bar>" by linarith
  then have x0: "x \<noteq> 0" by auto
  have "2 powr of_int (int k) \<le> \<bar>x\<bar>" using lo by (simp add: powr_realpow)
  moreover have "\<bar>x\<bar> < 2 powr of_int (int k + 1)"
    using hi by (simp add: powr_realpow powr_add)
  ultimately have fl: "\<lfloor>log 2 \<bar>x\<bar>\<rfloor> = int k" by (rule floor_log2_eq)
  have e: "max (int k) (- 1022) - 52 = int k - 52" by simp
  have "2 powr (real k - 52) = 2 powr (- real (52 - k))" using k by (simp add: of_nat_diff)
  also have "\<dots> = inverse (2 powr real (52 - k))" by (rule powr_minus)
  also have "\<dots> = inverse (2 ^ (52 - k))" by (simp only: powr_realpow zero_less_numeral)
  finally have p: "2 powr (real k - 52) = inverse (2 ^ (52 - k))" .
  show ?thesis using x0 by (simp add: round_binary64_def fl e p Let_def divide_inverse)
qed

lemma round_binary64_below_one:
  fixes k :: nat
  assumes lo: "1 \<le> \<bar>x\<bar> * 2 ^ k" and hi: "\<bar>x\<bar> * 2 ^ k < 2" and k: "k \<le> 1022"
  shows "round_binary64 x = of_int (py_round (x * 2 ^ (52 + k))) / 2 ^ (52 + k)"
proof -
  have x0: "x \<noteq> 0" using lo by auto
  have "\<bar>x\<bar> < 2 / 2 ^ k" using hi by (simp add: pos_less_divide_eq)
  note hi' = this
  have "2 powr of_int (- int k) \<le> \<bar>x\<bar>"
    using lo by (simp add: powr_minus powr_realpow field_simps)
  moreover have "2 powr of_int (- int k + 1) = 2 / (2::real) ^ k"
    by (simp add: powr_diff powr_realpow)
  with hi' have "\<bar>x\<bar> < 2 powr of_int (- int k + 1)"
    by (simp only:)
  ultimately have fl: "\<lfloor>log 2 \<bar>x\<bar>\<rfloor> = - int k" by (rule floor_log2_eq)
  have e: "max (- int k) (- 1022) - 52 = - int k - 52" using k by simp
  have eq: "- real k - 52 = - real (52 + k)" by simp
  have p: "2 powr (- real k - 52) = inverse (2 ^ (52 + k))"
    unfolding eq by (simp only: powr_minus powr_realpow zero_less_numeral)
  show ?thesis using x0 by (simp add: round_binary64_def fl e p Let_def divide_inverse)
qed

subsection \<open>With exact arithmetic the float functions are the exact ones\<close>

lemma calculate_confidence_float_exact:
  "calculate_confidence_float exact_arith rates sources = calculate_confidence rates sources"
proof (cases "length rates < 2")
  case True
  then show ?thesis by (simp add: calculate_confidence_float_def calculate_confidence_def)
next
  case False
  then have two: "2 \<le> length rates" by simp
  have eq: "real (length rates - 1) = real (length rates) - 1" using two by simp
  show ?thesis
    using False
    by (simp add: calculate_confidence_float_def calculate_confidence_def mean_float_def
        stdev_float_def mean_def stdev_def exact_arith_def sample_stdev_def Let_def eq)
qed

text \<open>
  With two rates or more neither half is empty and no division fails, whatever the
  arithmetic.
\<close>

lemma calculate_trend_float_unfold:
  "calculate_trend_float fa today s =
     (let rs = get_recent_rates today 7 s;
          first_half = take (length rs div 2) rs;
          second_half = drop (length rs div 2) rs;
          avg_first = rnd fa (float_sum fa first_half / real (length first_half));
          avg_second = rnd fa (float_sum fa second_half / real (length second_half))
      in if length rs < 2 then Insufficient_data
         else if avg_second > rnd fa (avg_first + rnd fa (1 / 10)) then Rising
         else if avg_second < rnd fa (avg_first - rnd fa (1 / 10)) then Falling
         else Stable)"
proof (cases "length (get_recent_rates today 7 s) < 2")
  case True
  then show ?thesis
    by (simp add: calculate_trend_float_def calculate_trend_float_try_def Let_def)
next
  case False
  let ?rs = "get_recent_rates today 7 s"
  have two: "2 \<le> length ?rs" using False by simp
  then have h1: "take (length ?rs div 2) ?rs \<noteq> []" and h2: "drop (length ?rs div 2) ?rs \<noteq> []"
    by auto
  have l1: "real (length (take (length ?rs div 2) ?rs)) \<noteq> 0" using h1 by simp
  have l2: "real (length (drop (length ?rs div 2) ?rs)) \<noteq> 0" using h2 by simp
  show ?thesis
    using False h1 h2 l1 l2
    by (simp add: calculate_trend_float_def calculate_trend_float_try_def Let_def
        float_truediv_def
        del: of_nat_eq_0_iff length_0_conv take_eq_Nil drop_eq_Nil)
qed

lemma calculate_trend_float_exact:
  "calculate_trend_float exact_arith today s = calculate_trend today s"
  by (simp add: calculate_trend_float_unfold calculate_trend_unfold trend_of_halves_def
      mean_of_def exact_arith_def Let_def)

text \<open>The equations that evaluate the store functions on a concrete directory.\<close>

lemmas store_eval =
  save_rate_def append_row_def new_row_def update_metadata_def update_metadata_try_def
  count_records_def calculate_trend_def calculate_trend_try_def get_recent_rates_def
  get_recent_rates_try_def replace_day_def days_in_month_def is_leap_def date_ge_def
  sorted_reverse_def py_truediv_def fresh_store_def Let_def

lemmas window_eval =
  recent_rates_spec_def rate_in_window_def in_window_def to_ordinal_def
  days_before_year_def days_before_month_def

lemmas aggregate_eval =
  get_aggregated_rate_def rate_sources_def validate_rate_def valid_rates_of_def
  median_def py_min_def py_max_def mean_def calculate_confidence_def round3_def py_round_def

section \<open>The aggregation result\<close>





text \<open>
  Claim C5 (the code departs from it). A source whose fetch returns no rate, or a rate that
  fails validation, gets no entry in \<open>source_rates\<close>; only a source whose fetch raises is
  mapped to \<open>None\<close>. With \<open>fred\<close> returning \<open>5.25\<close>, the mapping has the single entry
  \<open>fred\<close> when \<open>bankrate\<close> returns \<open>None\<close> and when it returns the invalid rate \<open>1.5\<close>,
  and the two entries \<open>fred\<close> and \<open>bankrate\<close> when the fetch of \<open>bankrate\<close> raises.
\<close>

theorem source_rates_omits_failed_source:
  "get_aggregated_rate
     [(''fred'', Returns (Some (525 / 100))), (''bankrate'', Returns None)] =
   Aggregated
     \<lparr>aggregated_rate = 525 / 100,
      source_rates = [(''fred'', Some (525 / 100))],
      successful_sources = [''fred''],
      rate_count = 1, min_rate = 525 / 100, max_rate = 525 / 100,
      average_rate = 525 / 100, rate_spread = 0, confidence = Low\<rparr> \<and>
   get_aggregated_rate
     [(''fred'', Returns (Some (525 / 100))), (''bankrate'', Returns (Some (15 / 10)))] =
   Aggregated
     \<lparr>aggregated_rate = 525 / 100,
      source_rates = [(''fred'', Some (525 / 100))],
      successful_sources = [''fred''],
      rate_count = 1, min_rate = 525 / 100, max_rate = 525 / 100,
      average_rate = 525 / 100, rate_spread = 0, confidence = Low\<rparr> \<and>
   get_aggregated_rate
     [(''fred'', Returns (Some (525 / 100))), (''bankrate'', Raises)] =
   Aggregated
     \<lparr>aggregated_rate = 525 / 100,
      source_rates = [(''fred'', Some (525 / 100)), (''bankrate'', None)],
      successful_sources = [''fred''],
      rate_count = 1, min_rate = 525 / 100, max_rate = 525 / 100,
      average_rate = 525 / 100, rate_spread = 0, confidence = Low\<rparr>"
  by (simp add: aggregate_eval)

text \<open>
  Claim C6. With \<open>n\<close> successful sources and the valid rates, two of them at least unless
  \<open>n < 2\<close>, \<open>_calculate_confidence\<close> returns the tier of the ladder: low when \<open>n < 2\<close>;
  otherwise, with \<open>cv\<close> the float \<open>statistics.stdev(rates) / statistics.mean(rates)\<close> (\<open>1\<close>
  when the mean is not positive), high when \<open>n \<ge> 3\<close> and \<open>cv < 0.05\<close>, medium when
  \<open>n \<ge> 2\<close> and \<open>cv < 0.1\<close>, low otherwise, the thresholds being the floats \<open>0.05\<close> and
  \<open>0.1\<close>. In particular three sources with \<open>cv\<close> from \<open>0.05\<close> up to \<open>0.1\<close>, such as
  \<open>0.06\<close>, give medium. This holds whatever the rounding of the arithmetic.
\<close>

theorem calculate_confidence_float_ladder:
  assumes "2 \<le> length rates \<or> length sources < 2"
  shows "calculate_confidence_float fa rates sources =
           Inr (confidence_ladder_float fa (length sources) (cv_float fa rates)) \<and>
         (length sources = 3 \<and> rnd fa (5 / 100) \<le> cv_float fa rates \<and>
          cv_float fa rates < rnd fa (1 / 10) \<longrightarrow>
            calculate_confidence_float fa rates sources = Inr Medium)"
proof -
  have "calculate_confidence_float fa rates sources =
          Inr (confidence_ladder_float fa (length sources) (cv_float fa rates))"
  proof (cases "length rates < 2")
    case True
    with assms have "length sources < 2" by simp
    with True show ?thesis
      by (simp add: calculate_confidence_float_def confidence_ladder_float_def)
  next
    case False
    then have ne: "rates \<noteq> []" by auto
    show ?thesis
      using False ne
      by (cases "length sources < 2")
         (simp_all add: calculate_confidence_float_def mean_float_def stdev_float_def Let_def
            confidence_ladder_float_def cv_float_def)
  qed
  then show ?thesis by (simp add: confidence_ladder_float_def)
qed

text \<open>
  The witness is in binary64 arithmetic: the floats written \<open>4.7\<close>, \<open>5.0\<close>, \<open>5.3\<close> have the
  computed \<open>cv\<close> \<open>0.05999999999999996\<close>.
\<close>

lemma float_0_1: "round_binary64 (1 / 10) = 3602879701896397 / 36028797018963968"
  by (subst round_binary64_below_one [where k = 4]) (simp_all add: py_round_def)

lemma float_0_05: "round_binary64 (1 / 20) = 3602879701896397 / 72057594037927936"
  by (subst round_binary64_below_one [where k = 5]) (simp_all add: py_round_def)

lemma float_4_7: "round_binary64 (47 / 10) = 5291729562160333 / 1125899906842624"
  by (subst round_binary64_above_one [where k = 2]) (simp_all add: py_round_def)

lemma float_5_3: "round_binary64 (53 / 10) = 5967269506265907 / 1125899906842624"
  by (subst round_binary64_above_one [where k = 2]) (simp_all add: py_round_def)

lemma float_5: "round_binary64 5 = 5"
  by (subst round_binary64_above_one [where k = 2]) (simp_all add: py_round_def)

lemma stdev_4_7_5_5_3:
  "sample_stdev [5291729562160333 / 1125899906842624, 5, 5967269506265907 / 1125899906842624] =
     337769972052787 / 1125899906842624"
  unfolding sample_stdev_def by (rule real_sqrt_unique) (simp_all add: power2_eq_square)

lemma float_stdev_fixed:
  "round_binary64 (337769972052787 / 1125899906842624) = 337769972052787 / 1125899906842624"
  by (subst round_binary64_below_one [where k = 2]) (simp_all add: py_round_def)

lemma float_cv_4_7_5_5_3:
  "round_binary64 (337769972052787 / 5629499534213120) =
     8646911284551347 / 144115188075855872"
  by (subst round_binary64_below_one [where k = 5]) (simp_all add: py_round_def)

lemma cv_float_4_7_5_5_3:
  "cv_float binary64 [round_binary64 (47 / 10), 5, round_binary64 (53 / 10)] =
     8646911284551347 / 144115188075855872"
  by (simp add: cv_float_def binary64_def float_4_7 float_5_3 float_5 stdev_4_7_5_5_3
      float_stdev_fixed float_cv_4_7_5_5_3)

theorem calculate_confidence_float_ladder_witness:
  "(2 \<le> length [round_binary64 (47 / 10), 5, round_binary64 (53 / 10)] \<or>
    length [''fred'', ''bankrate'', ''zillow''] < 2) \<and>
   length [''fred'', ''bankrate'', ''zillow''] = 3 \<and>
   rnd binary64 (5 / 100) \<le> cv_float binary64 [round_binary64 (47 / 10), 5, round_binary64 (53 / 10)] \<and>
   cv_float binary64 [round_binary64 (47 / 10), 5, round_binary64 (53 / 10)] < rnd binary64 (1 / 10) \<and>
   calculate_confidence_float binary64 [round_binary64 (47 / 10), 5, round_binary64 (53 / 10)]
     [''fred'', ''bankrate'', ''zillow''] = Inr Medium"
proof -
  let ?rates = "[round_binary64 (47 / 10), 5, round_binary64 (53 / 10)]"
  let ?sources = "[''fred'', ''bankrate'', ''zillow'']"
  have h: "2 \<le> length ?rates \<or> length ?sources < 2" by simp
  have n: "length ?sources = 3" by simp
  have lo: "rnd binary64 (5 / 100) \<le> cv_float binary64 ?rates"
    unfolding cv_float_4_7_5_5_3 by (simp add: binary64_def float_0_05)
  have hi: "cv_float binary64 ?rates < rnd binary64 (1 / 10)"
    unfolding cv_float_4_7_5_5_3 by (simp add: binary64_def float_0_1)
  from calculate_confidence_float_ladder [OF h, of binary64] n lo hi
  have "calculate_confidence_float binary64 ?rates ?sources = Inr Medium" by blast
  with h n lo hi show ?thesis by blast
qed

text \<open>
  At the threshold the rounding decides: the floats written \<open>5.7\<close>, \<open>6.0\<close>, \<open>6.3\<close> have a
  computed \<open>cv\<close> of \<open>0.04999999999999997\<close>, and three sources give high.
\<close>

lemma float_5_7: "round_binary64 (57 / 10) = 6417629469002957 / 1125899906842624"
  by (subst round_binary64_above_one [where k = 2]) (simp_all add: py_round_def)

lemma float_6_3: "round_binary64 (63 / 10) = 7093169413108531 / 1125899906842624"
  by (subst round_binary64_above_one [where k = 2]) (simp_all add: py_round_def)

lemma float_6: "round_binary64 6 = 6"
  by (subst round_binary64_above_one [where k = 2]) (simp_all add: py_round_def)

lemma stdev_5_7_6_6_3:
  "sample_stdev [6417629469002957 / 1125899906842624, 6, 7093169413108531 / 1125899906842624] =
     337769972052787 / 1125899906842624"
  unfolding sample_stdev_def by (rule real_sqrt_unique) (simp_all add: power2_eq_square)

lemma float_cv_5_7_6_6_3:
  "round_binary64 (337769972052787 / 6755399441055744) =
     7205759403792789 / 144115188075855872"
  by (subst round_binary64_below_one [where k = 5]) (simp_all add: py_round_def)

lemma confidence_at_the_threshold:
  "calculate_confidence_float binary64 [round_binary64 (57 / 10), 6, round_binary64 (63 / 10)]
     [''fred'', ''bankrate'', ''zillow''] = Inr High"
  by (simp add: calculate_confidence_float_def mean_float_def stdev_float_def binary64_def
      float_5_7 float_6_3 float_6 stdev_5_7_6_6_3 float_stdev_fixed float_cv_5_7_6_6_3
      float_0_05)

section \<open>Recent rates\<close>

text \<open>
  Claim C1 (the code departs from it). \<open>get_recent_rates\<close> sorts the rates it has collected
  by value, largest first, and not by the date of the observation. After a save of \<open>6.0\<close> on
  3 November 2026 and a save of \<open>5.0\<close> on 4 November, the most recent rate is \<open>5.0\<close>, and
  the code returns \<open>6.0\<close> first.
\<close>

theorem get_recent_rates_orders_by_value:
  "get_recent_rates (mk_date 2026 11 4) 30
     (save_rates [(mk_date 2026 11 3, 6, ''fred''), (mk_date 2026 11 4, 5, ''fred'')]
        fresh_store) = [6, 5] \<and>
   recent_rates_spec (mk_date 2026 11 4) 30
     (save_rates [(mk_date 2026 11 3, 6, ''fred''), (mk_date 2026 11 4, 5, ''fred'')]
        fresh_store) = [5, 6]"
  by (simp add: mk_date_def store_eval window_eval)

text \<open>
  Claim C4 (the code departs from it). The cutoff is today's date with its day replaced by
  \<open>max(1, day - days)\<close>, which never leaves the current month. On 4 November 2026 with a
  window of 30 days the cutoff is 1 November, so an observation of 20 October, which lies in
  the window \<open>[5 October, 4 November]\<close>, is not returned.
\<close>

theorem get_recent_rates_cutoff_in_month:
  "in_window (mk_date 2026 11 4) 30 (mk_date 2026 10 20) \<and>
   get_recent_rates (mk_date 2026 11 4) 30
     (save_rates [(mk_date 2026 10 20, 65 / 10, ''fred'')] fresh_store) = [] \<and>
   recent_rates_spec (mk_date 2026 11 4) 30
     (save_rates [(mk_date 2026 10 20, 65 / 10, ''fred'')] fresh_store) = [65 / 10]"
  by (simp add: mk_date_def store_eval window_eval)

section \<open>Trend and statistics\<close>

text \<open>
  Claim C8. \<open>_calculate_trend\<close> returns \<open>insufficient_data\<close> when \<open>get_recent_rates(7)\<close> has
  fewer than two values (as it would for an empty half); otherwise it splits the list at
  index \<open>n div 2\<close> and, with the mean of a half the float \<open>sum(half) / len(half)\<close>, returns
  rising when the mean of the second half is greater than the float \<open>avg_first + 0.1\<close>,
  falling when it is less than the float \<open>avg_first - 0.1\<close>, and stable otherwise; it never
  returns \<open>unknown\<close>. This holds whatever the rounding of the arithmetic.
\<close>

theorem calculate_trend_float_bisects:
  "calculate_trend_float fa today s =
     (let rs = get_recent_rates today 7 s;
          first_half = take (length rs div 2) rs;
          second_half = drop (length rs div 2) rs;
          avg_first = rnd fa (float_sum fa first_half / real (length first_half));
          avg_second = rnd fa (float_sum fa second_half / real (length second_half))
      in if length rs < 2 then Insufficient_data
         else if first_half = [] \<or> second_half = [] then Insufficient_data
         else if avg_second > rnd fa (avg_first + rnd fa (1 / 10)) then Rising
         else if avg_second < rnd fa (avg_first - rnd fa (1 / 10)) then Falling
         else Stable) \<and>
   calculate_trend_float fa today s \<noteq> Unknown"
proof (cases "length (get_recent_rates today 7 s) < 2")
  case True
  then show ?thesis by (simp add: calculate_trend_float_unfold Let_def)
next
  case False
  then have "2 \<le> length (get_recent_rates today 7 s)" by simp
  then have "take (length (get_recent_rates today 7 s) div 2) (get_recent_rates today 7 s) \<noteq> []"
    and "drop (length (get_recent_rates today 7 s) div 2) (get_recent_rates today 7 s) \<noteq> []"
    by auto
  then show ?thesis
    using False
    by (simp add: calculate_trend_float_unfold Let_def del: take_eq_Nil drop_eq_Nil)
qed

text \<open>
  The witness is in binary64 arithmetic: after a save of the float \<open>6.2\<close> and a save of the
  float \<open>6.1\<close> the trend is falling, since \<open>6.2 - 0.1\<close> is the float \<open>6.1000000000000005\<close>.
\<close>

lemma float_6_2: "round_binary64 (31 / 5) = 6980579422424269 / 1125899906842624"
  by (subst round_binary64_above_one [where k = 2]) (simp_all add: py_round_def)

lemma float_6_1: "round_binary64 (61 / 10) = 3433994715870003 / 562949953421312"
  by (subst round_binary64_above_one [where k = 2]) (simp_all add: py_round_def)

lemma float_6_2_fixed:
  "round_binary64 (6980579422424269 / 1125899906842624) = 6980579422424269 / 1125899906842624"
  by (subst round_binary64_above_one [where k = 2]) (simp_all add: py_round_def)

lemma float_6_1_fixed:
  "round_binary64 (3433994715870003 / 562949953421312) = 3433994715870003 / 562949953421312"
  by (subst round_binary64_above_one [where k = 2]) (simp_all add: py_round_def)

lemma float_6_2_plus_0_1:
  "round_binary64 (226981421219473005 / 36028797018963968) =
     7093169413108531 / 1125899906842624"
  by (subst round_binary64_above_one [where k = 2]) (simp_all add: py_round_def)

lemma float_6_2_minus_0_1:
  "round_binary64 (219775661815680211 / 36028797018963968) =
     6867989431740007 / 1125899906842624"
  by (subst round_binary64_above_one [where k = 2]) (simp_all add: py_round_def)

lemma rates_6_2_then_6_1:
  "get_recent_rates (mk_date 2026 11 4) 7
     (save_rates [(mk_date 2026 11 3, round_binary64 (62 / 10), ''fred''),
                  (mk_date 2026 11 4, round_binary64 (61 / 10), ''fred'')] fresh_store) =
   [6980579422424269 / 1125899906842624, 3433994715870003 / 562949953421312]"
  by (simp add: float_6_2 float_6_1 mk_date_def store_eval)

theorem calculate_trend_float_bisects_witness:
  "calculate_trend_float binary64 (mk_date 2026 11 4)
     (save_rates [(mk_date 2026 11 3, round_binary64 (62 / 10), ''fred''),
                  (mk_date 2026 11 4, round_binary64 (61 / 10), ''fred'')] fresh_store) =
   Falling"
proof -
  note inst = calculate_trend_float_bisects [of binary64 "mk_date 2026 11 4"
      "save_rates [(mk_date 2026 11 3, round_binary64 (62 / 10), ''fred''),
                   (mk_date 2026 11 4, round_binary64 (61 / 10), ''fred'')] fresh_store"]
  show ?thesis
    unfolding conjunct1 [OF inst] rates_6_2_then_6_1
    by (simp add: binary64_def float_0_1 float_6_2_fixed float_6_1_fixed
        float_6_2_plus_0_1 float_6_2_minus_0_1)
qed

text \<open>
  The clause for \<open>rising\<close> is part of what is proved: under a rounding that is not
  monotone, here one that sends \<open>6.3\<close> to \<open>0\<close>, it is the clause that applies.
\<close>

lemma rising_under_a_crooked_rounding:
  "calculate_trend_float
     \<lparr>rnd = (\<lambda>x. if x = 63 / 10 then 0 else x), float_sum = sum_list,
      float_mean = (\<lambda>data. 0), float_stdev = (\<lambda>data. 0)\<rparr>
     (mk_date 2026 11 4)
     (save_rates [(mk_date 2026 11 3, 62 / 10, ''fred''), (mk_date 2026 11 4, 61 / 10, ''fred'')]
        fresh_store) = Rising"
  by (simp add: calculate_trend_float_def calculate_trend_float_try_def float_truediv_def
      mk_date_def store_eval)



text \<open>
  Claim C10. Whenever \<open>get_rate_statistics\<close> returns statistics, their \<open>max_rate\<close> is the
  largest of the rates \<open>get_recent_rates\<close> returns for the window, and their \<open>latest_rate\<close>
  equals it: \<open>latest_rate\<close> is the head of a list in descending order of value, the
  maximum of the window and not the rate recorded last.
\<close>

theorem latest_rate_is_max_rate:
  assumes "get_rate_statistics today days s = Inr st"
  shows "get_recent_rates today days s \<noteq> [] \<and>
         stat_max_rate st = Max (set (get_recent_rates today days s)) \<and>
         stat_latest_rate st = Some (stat_max_rate st)"
proof -
  let ?rs = "get_recent_rates today days s"
  have ne: "?rs \<noteq> []" using assms by (auto simp: get_rate_statistics_def Let_def)
  then obtain rates where r: "rates \<noteq> []" "?rs = sorted_reverse rates"
    using get_recent_rates_cases [of today days s] by auto
  have hdmax: "hd ?rs = Max (set ?rs)"
    using hd_sorted_reverse [OF r(1)] r(2) by (simp add: sorted_reverse_props)
  have len: "real (length ?rs) \<noteq> 0" using ne by simp
  have st: "st = \<lparr>period_days = days, record_count = length ?rs,
              stat_latest_rate = (case ?rs of [] \<Rightarrow> None | r # _ \<Rightarrow> Some r),
              stat_average_rate = round3 (sum_list ?rs / real (length ?rs)),
              stat_min_rate = Min (set ?rs), stat_max_rate = Max (set ?rs),
              stat_trend = calculate_trend today s,
              volatility = round3 (calculate_volatility ?rs)\<rparr>"
    using assms ne len
    by (simp add: get_rate_statistics_def Let_def py_truediv_def py_min_eq py_max_eq
        del: of_nat_eq_0_iff length_0_conv)
  have mx: "stat_max_rate st = Max (set ?rs)" by (subst st) simp
  have "stat_latest_rate st = Some (hd ?rs)" using ne by (subst st) (cases ?rs, simp_all)
  then show ?thesis using ne mx hdmax by simp
qed

text \<open>
  The witness: after a save of \<open>6.0\<close> on 3 November and a save of \<open>5.0\<close> on 4 November the
  rate recorded last is \<open>5.0\<close>, and \<open>latest_rate\<close> is \<open>6.0\<close>.
\<close>

lemma statistics_6_then_5:
  "get_rate_statistics (mk_date 2026 11 4) 30
     (save_rates [(mk_date 2026 11 3, 6, ''fred''), (mk_date 2026 11 4, 5, ''fred'')]
        fresh_store) =
   Inr \<lparr>period_days = 30, record_count = 2, stat_latest_rate = Some 6,
        stat_average_rate = 55 / 10, stat_min_rate = 5, stat_max_rate = 6,
        stat_trend = Falling, volatility = 1 / 2\<rparr>"
  by (simp add: mk_date_def get_rate_statistics_def store_eval py_min_def py_max_def
      calculate_volatility_def round3_def py_round_def power2_eq_square sqrt_1_4)

lemma last_row_6_then_5:
  "row_rate (last (rates_file
     (save_rates [(mk_date 2026 11 3, 6, ''fred''), (mk_date 2026 11 4, 5, ''fred'')]
        fresh_store))) = Parsed 5"
  by (simp add: mk_date_def store_eval)

theorem latest_rate_is_max_rate_witness:
  "\<exists>st. get_rate_statistics (mk_date 2026 11 4) 30
           (save_rates [(mk_date 2026 11 3, 6, ''fred''), (mk_date 2026 11 4, 5, ''fred'')]
              fresh_store) = Inr st \<and>
         stat_latest_rate st = Some 6 \<and>
         Max (set (get_recent_rates (mk_date 2026 11 4) 30
           (save_rates [(mk_date 2026 11 3, 6, ''fred''), (mk_date 2026 11 4, 5, ''fred'')]
              fresh_store))) = 6 \<and>
         row_rate (last (rates_file
           (save_rates [(mk_date 2026 11 3, 6, ''fred''), (mk_date 2026 11 4, 5, ''fred'')]
              fresh_store))) = Parsed 5"
proof -
  let ?st = "\<lparr>period_days = 30, record_count = 2, stat_latest_rate = Some 6,
        stat_average_rate = 55 / 10, stat_min_rate = 5, stat_max_rate = 6,
        stat_trend = Falling, volatility = 1 / 2\<rparr>"
  note inst = latest_rate_is_max_rate [OF statistics_6_then_5]
  have "stat_max_rate ?st = 6" by simp
  with inst have "Max (set (get_recent_rates (mk_date 2026 11 4) 30
           (save_rates [(mk_date 2026 11 3, 6, ''fred''), (mk_date 2026 11 4, 5, ''fred'')]
              fresh_store))) = 6"
    and "stat_latest_rate ?st = Some 6" by simp_all
  with statistics_6_then_5 last_row_6_then_5 show ?thesis by blast
qed

section \<open>Saving\<close>

text \<open>
  Claim C2 as stated does not hold of the code. When \<open>metadata.json\<close> cannot be loaded, the
  recompute of the metadata fails after the row has been appended, and \<open>save_rate\<close> still
  returns true.
\<close>

theorem save_rate_true_after_failed_recompute_counterexample:
  "update_metadata_try (mk_date 2026 11 4) (525 / 100) ''fred''
     \<lparr>rates_file = [new_row (mk_date 2026 11 4) (525 / 100) ''fred''],
      metadata_file = None, rates_writable = True, metadata_writable = True,
      metadata_truncated = False\<rparr> =
     (Some OSError,
      \<lparr>rates_file = [new_row (mk_date 2026 11 4) (525 / 100) ''fred''],
       metadata_file = None, rates_writable = True, metadata_writable = True,
       metadata_truncated = False\<rparr>) \<and>
   save_rate (mk_date 2026 11 4) (525 / 100) ''fred''
     \<lparr>rates_file = [], metadata_file = None, rates_writable = True, metadata_writable = True,
      metadata_truncated = False\<rparr> =
     (True,
      \<lparr>rates_file = [new_row (mk_date 2026 11 4) (525 / 100) ''fred''],
       metadata_file = None, rates_writable = True, metadata_writable = True,
       metadata_truncated = False\<rparr>)"
  by (simp add: save_rate_def append_row_def update_metadata_def update_metadata_try_def)

text \<open>
  Claim C2, amended. \<open>save_rate\<close> returns false exactly when the append to the log fails.
  When the append succeeds and the recompute of the metadata fails, \<open>save_rate\<close> returns
  true, and the appended row is kept.
\<close>

theorem save_rate_reports_the_append:
  "fst (save_rate today rate source s) = rates_writable s \<and>
   (rates_writable s \<and>
    fst (update_metadata_try today rate source
           (s\<lparr>rates_file := rates_file s @ [new_row today rate source]\<rparr>)) = Some e \<longrightarrow>
      fst (save_rate today rate source s) \<and>
      rates_file (snd (save_rate today rate source s)) =
        rates_file s @ [new_row today rate source])"
  by (simp add: save_rate_def append_row_def update_metadata_def rates_file_update_metadata_try)

text \<open>
  The witness: a log that cannot be appended to, and a \<open>metadata.json\<close> whose write fails in
  \<open>json.dump\<close>.
\<close>

theorem save_rate_reports_the_append_witness:
  "fst (save_rate (mk_date 2026 11 4) (525 / 100) ''fred''
          (fresh_store\<lparr>rates_writable := False\<rparr>)) = False \<and>
   rates_writable (fresh_store\<lparr>metadata_writable := False, metadata_truncated := True\<rparr>) \<and>
   fst (update_metadata_try (mk_date 2026 11 4) (525 / 100) ''fred''
          (fresh_store\<lparr>metadata_writable := False, metadata_truncated := True,
                        rates_file := [new_row (mk_date 2026 11 4) (525 / 100) ''fred'']\<rparr>)) =
     Some OSError \<and>
   fst (save_rate (mk_date 2026 11 4) (525 / 100) ''fred''
          (fresh_store\<lparr>metadata_writable := False, metadata_truncated := True\<rparr>)) \<and>
   rates_file (snd (save_rate (mk_date 2026 11 4) (525 / 100) ''fred''
          (fresh_store\<lparr>metadata_writable := False, metadata_truncated := True\<rparr>))) =
     [new_row (mk_date 2026 11 4) (525 / 100) ''fred'']"
proof -
  let ?s1 = "fresh_store\<lparr>rates_writable := False\<rparr>"
  let ?s2 = "fresh_store\<lparr>metadata_writable := False, metadata_truncated := True\<rparr>"
  have a: "rates_writable ?s1 = False" by simp
  have b: "rates_writable ?s2" by (simp add: fresh_store_def)
  have d: "rates_file ?s2 = []" by (simp add: fresh_store_def)
  have c: "fst (update_metadata_try (mk_date 2026 11 4) (525 / 100) ''fred''
             (?s2\<lparr>rates_file := [new_row (mk_date 2026 11 4) (525 / 100) ''fred'']\<rparr>)) =
           Some OSError"
    by (simp add: update_metadata_try_def fresh_store_def Let_def)
  from save_rate_reports_the_append
         [of "mk_date 2026 11 4" "525 / 100" "''fred''" ?s1] a
  have 1: "fst (save_rate (mk_date 2026 11 4) (525 / 100) ''fred'' ?s1) = False"
    by simp
  from save_rate_reports_the_append
         [of "mk_date 2026 11 4" "525 / 100" "''fred''" ?s2 OSError] b c d
  have 2: "fst (save_rate (mk_date 2026 11 4) (525 / 100) ''fred'' ?s2) \<and>
           rates_file (snd (save_rate (mk_date 2026 11 4) (525 / 100) ''fred'' ?s2)) =
             [new_row (mk_date 2026 11 4) (525 / 100) ''fred'']"
    by simp
  show ?thesis using 1 b c 2 by blast
qed




end
